theory Spec2Isabelle
  imports Complex_Main "HOL-Library.Sublist"
begin

section \<open>Page-analysis pipeline of the SEO audit backend\<close>

text \<open>
  This theory embeds the \<^verbatim>\<open>POST /api/analyze\<close> handler of \<^verbatim>\<open>api/audit.js\<close>
  (the first, most complete variant of the server in that file) and proves properties
  of its heading detection, scoring, probes and error paths.

  Conventions of the embedding.
  \<^item> JavaScript strings are \<open>string\<close>; only the ASCII letters have case and only the
    ASCII white space characters are white space.
  \<^item> JavaScript numbers that hold counts are \<open>nat\<close>, scores are \<open>int\<close>, and the
    quotients computed by the handler are exact rationals (with the values \<open>NaN\<close> and
    \<open>Infinity\<close> where a division by zero produces them).
  \<^item> The libraries the handler calls are parameters: the parsed document \<open>$\<close> of cheerio
    is a function from selector strings to the selected elements, and the network, the
    URL, XML and JSON parsers and the part of the regular-expression engine that is not
    modelled are the fields of a record \<open>world\<close>.
  \<^item> The body of an HTTP response reaches the handler as axios delivers it: as a
    string, or, when the body is JSON, as the value it parses to.
  \<^item> An exception is a value: a computation that can throw returns a sum, with the
    thrown error on the left.
  \<^item> The 30 second timer the handler arms is real time and is not modelled: the
    embedding describes the requests whose analysis finishes before it fires.
\<close>

subsection \<open>String primitives\<close>

definition toLowerChar :: "char \<Rightarrow> char" where
  "toLowerChar c =
     (case map_of (zip ''ABCDEFGHIJKLMNOPQRSTUVWXYZ'' ''abcdefghijklmnopqrstuvwxyz'') c of
        None \<Rightarrow> c
      | Some l \<Rightarrow> l)"

definition toLowerCase :: "string \<Rightarrow> string" where
  "toLowerCase s = map toLowerChar s"

text \<open>\<^verbatim>\<open>s.startsWith(p)\<close>, and the same test under the regular-expression flag \<^verbatim>\<open>i\<close>.\<close>

definition startsWith :: "string \<Rightarrow> string \<Rightarrow> bool" where
  "startsWith s p = prefix p s"

fun startsWithCI :: "string \<Rightarrow> string \<Rightarrow> bool" where
  "startsWithCI s [] = True"
| "startsWithCI [] (p # ps) = False"
| "startsWithCI (c # cs) (p # ps) =
     (if toLowerChar c = toLowerChar p then startsWithCI cs ps else False)"

text \<open>\<^verbatim>\<open>s.includes(p)\<close>.\<close>

fun includesStr :: "string \<Rightarrow> string \<Rightarrow> bool" where
  "includesStr [] p = (p = [])"
| "includesStr (c # cs) p = (startsWith (c # cs) p \<or> includesStr cs p)"

definition isSpace :: "char \<Rightarrow> bool" where
  "isSpace c = (c \<in> set [CHR 0x09, CHR 0x0A, CHR 0x0B, CHR 0x0C, CHR 0x0D, CHR 0x20])"

definition isDigit :: "char \<Rightarrow> bool" where
  "isDigit c = (c \<in> set ''0123456789'')"

definition trim :: "string \<Rightarrow> string" where
  "trim s = rev (dropWhile isSpace (rev (dropWhile isSpace s)))"

subsection \<open>Global regular-expression scans\<close>

text \<open>
  A pattern is given by its matcher at a position: \<open>m s\<close> is the text the pattern matches
  at the start of \<open>s\<close>, if it matches there. \<open>matchAll m 0 s\<close> is \<^verbatim>\<open>s.match(/.../g) || []\<close>:
  the scan tries every position from the left and resumes after a match; the counter
  holds the number of characters of the last match still to be skipped.
  \<open>removeMatches m 0 s\<close> is \<^verbatim>\<open>s.replace(/.../g, '')\<close>.
\<close>

fun matchAll :: "(string \<Rightarrow> string option) \<Rightarrow> nat \<Rightarrow> string \<Rightarrow> string list" where
  "matchAll m k [] = []"
| "matchAll m k (c # cs) =
     (if 0 < k then matchAll m (k - 1) cs
      else (case m (c # cs) of
              None \<Rightarrow> matchAll m 0 cs
            | Some found \<Rightarrow> found # matchAll m (length found - 1) cs))"

fun removeMatches :: "(string \<Rightarrow> string option) \<Rightarrow> nat \<Rightarrow> string \<Rightarrow> string" where
  "removeMatches m k [] = []"
| "removeMatches m k (c # cs) =
     (if 0 < k then removeMatches m (k - 1) cs
      else (case m (c # cs) of
              None \<Rightarrow> c # removeMatches m 0 cs
            | Some found \<Rightarrow>
                (if found = [] then c # removeMatches m 0 cs
                 else removeMatches m (length found - 1) cs)))"

text \<open>
  The lazy \<^verbatim>\<open>[\s\S]*?\<close> followed by a literal of \<open>n\<close> characters that \<open>p\<close> recognises:
  the shortest prefix of the text that ends with the literal.
\<close>

fun lazyUntil :: "(string \<Rightarrow> bool) \<Rightarrow> nat \<Rightarrow> string \<Rightarrow> string option" where
  "lazyUntil p n [] = None"
| "lazyUntil p n (c # cs) =
     (if p (c # cs) then Some (take n (c # cs)) else map_option ((#) c) (lazyUntil p n cs))"

text \<open>
  \<^verbatim>\<open>/<hN[^>]*>[\s\S]*?<\/hN>/gi\<close> at a position, for the digit \<open>d\<close>: the opening
  \<^verbatim>\<open><hN\<close> in either case, everything up to the next \<^verbatim>\<open>>\<close>, and the shortest text that
  ends with the closing tag.
\<close>

definition headingAt :: "char \<Rightarrow> string \<Rightarrow> string option" where
  "headingAt d s =
     (if startsWithCI s (''<h'' @ [d]) then
        (case dropWhile (\<lambda>c. c \<noteq> CHR ''>'') (drop 3 s) of
           [] \<Rightarrow> None
         | gt # body \<Rightarrow>
             (case lazyUntil (\<lambda>t. startsWithCI t (''</h'' @ [d] @ ''>'')) 5 body of
                None \<Rightarrow> None
              | Some inner \<Rightarrow>
                  Some (take 3 s @ takeWhile (\<lambda>c. c \<noteq> CHR ''>'') (drop 3 s) @ gt # inner)))
      else None)"

text \<open>\<^verbatim>\<open>/<hN/gi\<close> at a position.\<close>

definition rawTagAt :: "char \<Rightarrow> string \<Rightarrow> string option" where
  "rawTagAt d s = (if startsWithCI s (''<h'' @ [d]) then Some (take 3 s) else None)"

text \<open>\<^verbatim>\<open>/<!--[\s\S]*?-->/g\<close> at a position.\<close>

definition commentAt :: "string \<Rightarrow> string option" where
  "commentAt s =
     (if startsWith s ''<!--''
      then map_option (\<lambda>r. ''<!--'' @ r) (lazyUntil (\<lambda>t. startsWith t ''-->'') 3 (drop 4 s))
      else None)"

text \<open>
  \<^verbatim>\<open>/<\/?[^>]+(>|$)/g\<close> at a position: a \<^verbatim>\<open><\<close>, at least one character other than
  \<^verbatim>\<open>>\<close>, and the \<^verbatim>\<open>>\<close> that follows unless the text ends there.
\<close>

definition tagAt :: "string \<Rightarrow> string option" where
  "tagAt s =
     (case s of
        [] \<Rightarrow> None
      | c # cs \<Rightarrow>
          (if c = CHR ''<'' then
             (let run = takeWhile (\<lambda>x. x \<noteq> CHR ''>'') cs in
              if run = [] then None else Some (c # run @ take 1 (drop (length run) cs)))
           else None))"

subsection \<open>The parsed document\<close>

text \<open>
  An element of the cheerio document, as far as the handler reads it: its attributes,
  its \<^verbatim>\<open>.text()\<close> and its \<^verbatim>\<open>.html()\<close>. The document is the function \<^verbatim>\<open>$\<close> from a
  selector to the elements it selects, in document order; every selector the handler
  builds is taken to be one that cheerio accepts.
\<close>

record element =
  attribs :: "(string \<times> string) list"
  textContent :: string
  innerHtml :: string

type_synonym cheerio = "string \<Rightarrow> element list"

subsection \<open>Heading detection\<close>

definition regexHeadings :: "char \<Rightarrow> string \<Rightarrow> string list" where
  "regexHeadings d htmlContent = matchAll (headingAt d) 0 htmlContent"

definition strippedHtml :: "string \<Rightarrow> string" where
  "strippedHtml htmlContent = removeMatches commentAt 0 htmlContent"

definition bruteHeadings :: "char \<Rightarrow> string \<Rightarrow> string list" where
  "bruteHeadings d htmlContent = matchAll (headingAt d) 0 (strippedHtml htmlContent)"

definition rawCount :: "char \<Rightarrow> string \<Rightarrow> nat" where
  "rawCount d htmlContent = length (matchAll (rawTagAt d) 0 htmlContent)"

text \<open>
  Method 5 of the handler: the cheerio count of a level is replaced by the brute-force
  count when that one exceeds both the cheerio and the regex count.
\<close>

definition bruteAdjust :: "nat \<Rightarrow> nat \<Rightarrow> nat \<Rightarrow> nat" where
  "bruteAdjust countCheerio countRegex countBrute =
     (if countBrute > countCheerio \<and> countBrute > countRegex then countBrute
      else countCheerio)"

record heading_profile =
  h1Count :: nat
  h2Count :: nat
  h3Count :: nat
  h4Count :: nat
  h5Count :: nat
  h6Count :: nat
  h1Text :: string

definition detectHeadings :: "cheerio \<Rightarrow> string \<Rightarrow> heading_profile" where
  "detectHeadings doc htmlContent =
     (let h1Matches = regexHeadings (CHR ''1'') htmlContent;
          h2Matches = regexHeadings (CHR ''2'') htmlContent;
          h3Matches = regexHeadings (CHR ''3'') htmlContent;
          h4Matches = regexHeadings (CHR ''4'') htmlContent;
          h5Matches = regexHeadings (CHR ''5'') htmlContent;
          h6Matches = regexHeadings (CHR ''6'') htmlContent;
          h1CountCheerio =
            bruteAdjust (length (doc ''h1'')) (length h1Matches)
              (length (bruteHeadings (CHR ''1'') htmlContent));
          h2CountCheerio =
            bruteAdjust (length (doc ''h2'')) (length h2Matches)
              (length (bruteHeadings (CHR ''2'') htmlContent));
          rawH2Count = rawCount (CHR ''2'') htmlContent;
          rawH3Count = rawCount (CHR ''3'') htmlContent;
          h1 = max h1CountCheerio (length h1Matches)
      in \<lparr> h1Count = h1,
           h2Count = max (max h2CountCheerio (length h2Matches)) rawH2Count,
           h3Count = max (max (length (doc ''h3'')) (length h3Matches)) rawH3Count,
           h4Count = max (length (doc ''h4'')) (length h4Matches),
           h5Count = max (length (doc ''h5'')) (length h5Matches),
           h6Count = max (length (doc ''h6'')) (length h6Matches),
           h1Text =
             (case h1Matches of
                [] \<Rightarrow> []
              | first # _ \<Rightarrow>
                  (if 0 < h1 \<and> first \<noteq> [] then trim (removeMatches tagAt 0 first)
                   else [])) \<rparr>)"

subsection \<open>Numbers\<close>

text \<open>
  The value of \<^verbatim>\<open>a / b\<close> for two lengths: \<open>NaN\<close> for \<^verbatim>\<open>0 / 0\<close> and \<open>Infinity\<close> for
  any other division by zero. \<open>exceeds x r\<close> is \<^verbatim>\<open>x > r\<close>, which is false for \<open>NaN\<close>.
  \<^verbatim>\<open>Math.round\<close> rounds to the nearest integer, a half upwards.
\<close>

datatype js_number = Num rat | Infinity | NaN

definition quotient :: "nat \<Rightarrow> nat \<Rightarrow> js_number" where
  "quotient a b =
     (if b = 0 then (if a = 0 then NaN else Infinity) else Num (of_nat a / of_nat b))"

definition exceeds :: "js_number \<Rightarrow> rat \<Rightarrow> bool" where
  "exceeds x r = (case x of Num q \<Rightarrow> r < q | Infinity \<Rightarrow> True | NaN \<Rightarrow> False)"

definition Math_round :: "rat \<Rightarrow> int" where
  "Math_round x = \<lfloor>x + 1 / 2\<rfloor>"

fun showNat :: "nat \<Rightarrow> string" where
  "showNat n =
     (if n < 10 then [''0123456789'' ! n]
      else showNat (n div 10) @ [''0123456789'' ! (n mod 10)])"

subsection \<open>Title\<close>

text \<open>\<^verbatim>\<open>s.split(sep)[0]\<close>: the text before the first occurrence of the separator.\<close>

fun beforeFirst :: "string \<Rightarrow> string \<Rightarrow> string" where
  "beforeFirst [] sep = []"
| "beforeFirst (c # cs) sep =
     (if startsWith (c # cs) sep then [] else c # beforeFirst cs sep)"

text \<open>
  \<^verbatim>\<open>s.replace(/[\|\-\.]+\s*$/, '')\<close>: the last run of separator characters is removed
  together with the white space after it, when nothing else follows.
\<close>

definition isSeparator :: "char \<Rightarrow> bool" where
  "isSeparator c = (c \<in> set ''|-.'')"

definition dropTrailingSeparators :: "string \<Rightarrow> string" where
  "dropTrailingSeparators s =
     (let body = rev (dropWhile isSpace (rev s));
          core = rev (dropWhile isSeparator (rev body))
      in if core = body then s else core)"

definition cleanTitle :: "string \<Rightarrow> string" where
  "cleanTitle title =
     (if includesStr title ''SEO Audit Tool''
      then trim (dropTrailingSeparators (trim (beforeFirst title ''SEO Audit Tool'')))
      else title)"

subsection \<open>Keyword density\<close>

text \<open>
  \<^verbatim>\<open>s.split(/\s+/)\<close>: the fields between the runs of white space. The flag tells that
  the scan is inside a run, the second argument is the current field, reversed.
\<close>

fun splitFields :: "bool \<Rightarrow> string \<Rightarrow> string \<Rightarrow> string list" where
  "splitFields inRun cur [] = [rev cur]"
| "splitFields inRun cur (c # cs) =
     (if isSpace c then
        (if inRun then splitFields True [] cs else rev cur # splitFields True [] cs)
      else splitFields False (c # cur) cs)"

definition splitWhitespace :: "string \<Rightarrow> string list" where
  "splitWhitespace s = splitFields False [] s"

definition potentialKeywords :: "string \<Rightarrow> string list" where
  "potentialKeywords title =
     filter (\<lambda>word. word \<notin> set [''and'', ''the'', ''for'', ''with''])
       (filter (\<lambda>word. 3 < length word) (splitWhitespace (toLowerCase title)))"

text \<open>
  \<^verbatim>\<open>bodyText.match(new RegExp(keyword, 'gi')) || []\<close>. The keyword goes into the
  constructor as it stands. A keyword without syntax characters is a literal, matched in
  either case; a keyword that begins with a quantifier has nothing to repeat, and the
  constructor throws a \<^verbatim>\<open>SyntaxError\<close>; every other pattern is left to the engine, a
  parameter.
\<close>

datatype regex_matches = SyntaxError | Matches nat

definition isSyntaxCharacter :: "char \<Rightarrow> bool" where
  "isSyntaxCharacter c =
     (c \<in> set [CHR ''^'', CHR ''$'', CHR 0x5C, CHR ''.'', CHR ''*'', CHR ''+'', CHR ''?'',
               CHR ''('', CHR '')'', CHR ''['', CHR '']'', CHR ''{'', CHR ''}'', CHR ''|''])"

definition literalAt :: "string \<Rightarrow> string \<Rightarrow> string option" where
  "literalAt keyword s =
     (if startsWithCI s keyword then Some (take (length keyword) s) else None)"

definition keywordMatches ::
  "(string \<Rightarrow> string \<Rightarrow> regex_matches) \<Rightarrow> string \<Rightarrow> string \<Rightarrow> regex_matches" where
  "keywordMatches engine keyword bodyText =
     (if list_all (\<lambda>c. \<not> isSyntaxCharacter c) keyword
      then Matches (length (matchAll (literalAt keyword) 0 bodyText))
      else if startsWith keyword ''*'' \<or> startsWith keyword ''+'' \<or> startsWith keyword ''?''
      then SyntaxError
      else engine keyword bodyText)"

text \<open>What the handler can throw, as the \<^verbatim>\<open>catch\<close> block tells the cases apart.\<close>

datatype thrown =
    RequestFailed string string
  | BadStatus nat string
  | NotAString
  | InvalidURL
  | InvalidRegExp string

text \<open>
  \<open>RequestFailed code message\<close> is an axios error without a response, \<open>BadStatus\<close> one
  that carries the response's status and status text, \<open>NotAString\<close> the \<^verbatim>\<open>TypeError\<close>
  of a string method called on a value that is not a string, \<open>InvalidURL\<close> the
  \<^verbatim>\<open>TypeError\<close> of \<^verbatim>\<open>new URL\<close>, and \<open>InvalidRegExp\<close> the \<^verbatim>\<open>SyntaxError\<close> of
  \<^verbatim>\<open>new RegExp\<close>.
\<close>

definition orOne :: "nat \<Rightarrow> nat" where
  "orOne n = (if n = 0 then 1 else n)"

definition estimateKeywordDensity ::
  "(string \<Rightarrow> string \<Rightarrow> regex_matches) \<Rightarrow> string \<Rightarrow> string \<Rightarrow> thrown + rat" where
  "estimateKeywordDensity engine title bodyText =
     (if title \<noteq> [] \<and> bodyText \<noteq> [] then
        (case potentialKeywords title of
           [] \<Rightarrow> Inr 0
         | keyword # _ \<Rightarrow>
             (case keywordMatches engine keyword bodyText of
                SyntaxError \<Rightarrow> Inl (InvalidRegExp keyword)
              | Matches n \<Rightarrow>
                  Inr (of_nat n / of_nat (orOne (length (splitWhitespace bodyText))) * 100)))
      else Inr 0)"

subsection \<open>JSON values\<close>

text \<open>
  The values that \<^verbatim>\<open>JSON.parse\<close> produces: a property of the request body, and the
  data of a response. \<open>falsy v\<close> is \<^verbatim>\<open>!v\<close>, and \<open>stringOf v\<close> is the text of \<open>v\<close> when
  \<^verbatim>\<open>typeof v === 'string'\<close>.
\<close>

datatype json_value =
    JNull
  | JBool bool
  | JNumber rat
  | JString string
  | JArray "json_value list"
  | JObject "(string \<times> json_value) list"

fun falsy :: "json_value \<Rightarrow> bool" where
  "falsy JNull = True"
| "falsy (JBool b) = (\<not> b)"
| "falsy (JNumber q) = (q = 0)"
| "falsy (JString s) = (s = [])"
| "falsy (JArray xs) = False"
| "falsy (JObject kvs) = False"

fun stringOf :: "json_value \<Rightarrow> string option" where
  "stringOf (JString s) = Some s"
| "stringOf v = None"

subsection \<open>The world outside the handler\<close>

datatype http_method = GET | HEAD

text \<open>
  A response of axios. Its data is a JSON value: axios parses a body that is JSON and
  hands over the body as a string otherwise. Once the handler has used the data as a
  string, the response is one whose data is that string.
\<close>

record 'd http_response =
  status :: nat
  statusText :: string
  headers :: "(string \<times> string) list"
  data :: 'd

definition asText :: "json_value http_response \<Rightarrow> string http_response option" where
  "asText r =
     (case stringOf (data r) of
        None \<Rightarrow> None
      | Some s \<Rightarrow>
          Some \<lparr> status = status r, statusText = statusText r, headers = headers r,
                 data = s \<rparr>)"

definition textResponse :: "string http_response \<Rightarrow> json_value http_response" where
  "textResponse r =
     \<lparr> status = status r, statusText = statusText r, headers = headers r,
       data = JString (data r) \<rparr>"

text \<open>
  A request either fails at the network level, with the error's code and message, or is
  answered. A call is a request the handler has issued.
\<close>

datatype outcome = Failed string string | Replied "json_value http_response"

type_synonym call = "http_method \<times> string"

text \<open>
  What \<^verbatim>\<open>fast-xml-parser\<close> makes of a sitemap, as far as the handler looks:
  the parser throws, or \<^verbatim>\<open>parsed.urlset.url\<close> is missing or falsy, or is a single entry,
  or is an array of the given length. The parser is given the data of the response.
\<close>

datatype sitemap_parse = ParseFails | NoUrlEntry | SingleUrl | UrlArray nat

text \<open>
  \<open>request\<close> is axios before it looks at the status, \<open>load\<close> is \<^verbatim>\<open>cheerio.load\<close>,
  \<open>hostnameOf\<close> is \<^verbatim>\<open>new URL(u).hostname\<close> and \<open>resolveURL rel base\<close> is
  \<^verbatim>\<open>new URL(rel, base).href\<close> (\<open>None\<close> when the constructor throws), \<open>regexEngine\<close> is the
  rest of \<^verbatim>\<open>RegExp\<close>, and \<open>jsonParses\<close> tells whether \<^verbatim>\<open>JSON.parse\<close> accepts a text.
\<close>

record world =
  request :: "http_method \<Rightarrow> string \<Rightarrow> outcome"
  load :: "string \<Rightarrow> cheerio"
  hostnameOf :: "string \<Rightarrow> string option"
  resolveURL :: "string \<Rightarrow> string \<Rightarrow> string option"
  regexEngine :: "string \<Rightarrow> string \<Rightarrow> regex_matches"
  parseSitemap :: "json_value \<Rightarrow> sitemap_parse"
  jsonParses :: "string \<Rightarrow> bool"

text \<open>
  \<^verbatim>\<open>axios.get(url, ...)\<close> with the default \<^verbatim>\<open>validateStatus\<close>: a status outside
  200..299 rejects, with the response attached to the error.
\<close>

definition axiosGet :: "world \<Rightarrow> string \<Rightarrow> thrown + json_value http_response" where
  "axiosGet w url =
     (case request w GET url of
        Failed code message \<Rightarrow> Inl (RequestFailed code message)
      | Replied r \<Rightarrow>
          (if 200 \<le> status r \<and> status r < 300 then Inr r
           else Inl (BadStatus (status r) (statusText r))))"

subsection \<open>Reading the document and the headers\<close>

text \<open>\<^verbatim>\<open>$(sel).attr(name)\<close>, \<^verbatim>\<open>v || ''\<close>, \<^verbatim>\<open>$(sel).text()\<close> and \<^verbatim>\<open>headers[name]\<close>.\<close>

definition attr :: "element list \<Rightarrow> string \<Rightarrow> string option" where
  "attr sel name = (case sel of [] \<Rightarrow> None | e # _ \<Rightarrow> map_of (attribs e) name)"

definition orEmpty :: "string option \<Rightarrow> string" where
  "orEmpty v = (case v of None \<Rightarrow> [] | Some s \<Rightarrow> s)"

definition textOf :: "element list \<Rightarrow> string" where
  "textOf sel = concat (map textContent sel)"

definition header :: "(string \<times> string) list \<Rightarrow> string \<Rightarrow> string option" where
  "header hs name = map_of hs name"

definition present :: "string option \<Rightarrow> bool" where
  "present v = (case v of None \<Rightarrow> False | Some s \<Rightarrow> s \<noteq> [])"

subsection \<open>Security headers\<close>

text \<open>
  The probe returns an object with six boolean properties, or, when the request fails,
  the empty object \<^verbatim>\<open>{}\<close>. Reading a property of the empty object gives \<^verbatim>\<open>undefined\<close>,
  here \<open>None\<close>.
\<close>

record security_profile =
  hasXFrameOptions :: bool
  hasContentSecurityPolicy :: bool
  hasXXSSProtection :: bool
  hasStrictTransportSecurity :: bool
  hasReferrerPolicy :: bool
  hasPermissionsPolicy :: bool

datatype security_headers = Fields security_profile | EmptyObject

definition property :: "(security_profile \<Rightarrow> bool) \<Rightarrow> security_headers \<Rightarrow> bool option" where
  "property f h = (case h of EmptyObject \<Rightarrow> None | Fields p \<Rightarrow> Some (f p))"

definition truthy :: "bool option \<Rightarrow> bool" where
  "truthy v = (v = Some True)"

definition checkSecurityHeaders :: "world \<Rightarrow> string \<Rightarrow> security_headers \<times> call list" where
  "checkSecurityHeaders w url =
     (case request w HEAD url of
        Failed code message \<Rightarrow> (EmptyObject, [(HEAD, url)])
      | Replied headerResponse \<Rightarrow>
          (Fields
             \<lparr> hasXFrameOptions = present (header (headers headerResponse) ''x-frame-options''),
               hasContentSecurityPolicy =
                 present (header (headers headerResponse) ''content-security-policy''),
               hasXXSSProtection = present (header (headers headerResponse) ''x-xss-protection''),
               hasStrictTransportSecurity =
                 present (header (headers headerResponse) ''strict-transport-security''),
               hasReferrerPolicy = present (header (headers headerResponse) ''referrer-policy''),
               hasPermissionsPolicy =
                 (present (header (headers headerResponse) ''permissions-policy'')
                  \<or> present (header (headers headerResponse) ''feature-policy'')) \<rparr>,
           [(HEAD, url)]))"

subsection \<open>Scores\<close>

definition calculateTechnicalScore ::
  "bool \<Rightarrow> bool \<Rightarrow> string \<Rightarrow> string \<Rightarrow> nat \<Rightarrow> security_headers \<Rightarrow> int" where
  \<open>calculateTechnicalScore hasSSL hasMobileViewport canonicalUrl robotsMeta
       totalResourceHints securityHeaders =
     min ((if hasSSL then 20 else 0)
          + (if hasMobileViewport then 15 else 0)
          + (if canonicalUrl \<noteq> [] then 10 else 0)
          + (if \<not> includesStr robotsMeta ''noindex'' then 15 else 0)
          + (if totalResourceHints \<noteq> 0 then 10 else 0)
          + (if truthy (property hasContentSecurityPolicy securityHeaders) then 10 else 0))
       100\<close>

definition calculateContentScore :: "js_number \<Rightarrow> nat \<Rightarrow> nat \<Rightarrow> rat \<Rightarrow> int" where
  "calculateContentScore ratio h1 h2 density =
     min ((if exceeds ratio 0.1 then 20 else 0)
          + (if h1 = 1 then 20 else 0)
          + (if 2 \<le> h2 then 10 else 0)
          + (if 0.5 < density \<and> density < 5 then 10 else 0))
       100"

definition calculatePerformanceScore :: "nat \<Rightarrow> nat \<Rightarrow> int" where
  "calculatePerformanceScore scriptCount cssCount =
     max (100 - (int scriptCount + int cssCount) * 2) 0"

definition calculateWeightedScore :: "int \<Rightarrow> int \<Rightarrow> int \<Rightarrow> int" where
  "calculateWeightedScore technical content performance =
     Math_round (of_int technical * 0.4 + of_int content * 0.4 + of_int performance * 0.2)"

subsection \<open>Crawl probes\<close>

text \<open>\<^verbatim>\<open>s.split('\n')\<close>, in general the fields between the occurrences of a character.\<close>

fun splitOn :: "char \<Rightarrow> string \<Rightarrow> string \<Rightarrow> string list" where
  "splitOn sep cur [] = [rev cur]"
| "splitOn sep cur (c # cs) =
     (if c = sep then rev cur # splitOn sep [] cs else splitOn sep (c # cur) cs)"

definition splitLines :: "string \<Rightarrow> string list" where
  "splitLines s = splitOn (CHR 0x0A) [] s"

text \<open>
  The three shapes of \<^verbatim>\<open>robotsInfo\<close>: \<^verbatim>\<open>{exists: false, status}\<close>,
  \<^verbatim>\<open>{exists: true, disallows, status}\<close> and \<^verbatim>\<open>{exists: false, error}\<close>, and
  likewise for the sitemap. In \<^verbatim>\<open>fetchRobotsTxt\<close> the call \<^verbatim>\<open>res.data.split\<close> throws when
  the data is not a string, and the \<^verbatim>\<open>catch\<close> of the function returns the third shape;
  in \<^verbatim>\<open>fetchXmlSitemap\<close> the parser has a \<^verbatim>\<open>try\<close> of its own.
\<close>

datatype robots_info =
    RobotsRefused nat
  | RobotsFound "string list" nat
  | RobotsError thrown

definition robotsExists :: "robots_info \<Rightarrow> bool" where
  "robotsExists r = (case r of RobotsFound disallows st \<Rightarrow> True | _ \<Rightarrow> False)"

definition fetchRobotsTxt :: "world \<Rightarrow> string \<Rightarrow> robots_info \<times> call list" where
  "fetchRobotsTxt w siteUrl =
     (case resolveURL w ''/robots.txt'' siteUrl of
        None \<Rightarrow> (RobotsError InvalidURL, [])
      | Some robotsUrl \<Rightarrow>
          (case request w GET robotsUrl of
             Failed code message \<Rightarrow> (RobotsError (RequestFailed code message), [(GET, robotsUrl)])
           | Replied res \<Rightarrow>
               (if 400 \<le> status res then (RobotsRefused (status res), [(GET, robotsUrl)])
                else
                  (case stringOf (data res) of
                     None \<Rightarrow> (RobotsError NotAString, [(GET, robotsUrl)])
                   | Some text \<Rightarrow>
                       (RobotsFound
                          (filter (\<lambda>l. startsWith (toLowerCase l) ''disallow'')
                             (splitLines text))
                          (status res),
                        [(GET, robotsUrl)])))))"

datatype sitemap_info =
    SitemapRefused nat
  | SitemapFound nat
  | SitemapError thrown

definition sitemapExists :: "sitemap_info \<Rightarrow> bool" where
  "sitemapExists s = (case s of SitemapFound urlCount \<Rightarrow> True | _ \<Rightarrow> False)"

definition fetchXmlSitemap :: "world \<Rightarrow> string \<Rightarrow> sitemap_info \<times> call list" where
  "fetchXmlSitemap w siteUrl =
     (case resolveURL w ''/sitemap.xml'' siteUrl of
        None \<Rightarrow> (SitemapError InvalidURL, [])
      | Some sitemapUrl \<Rightarrow>
          (case request w GET sitemapUrl of
             Failed code message \<Rightarrow>
               (SitemapError (RequestFailed code message), [(GET, sitemapUrl)])
           | Replied res \<Rightarrow>
               (if 400 \<le> status res then (SitemapRefused (status res), [(GET, sitemapUrl)])
                else (SitemapFound
                        (case parseSitemap w (data res) of
                           ParseFails \<Rightarrow> 0
                         | NoUrlEntry \<Rightarrow> 0
                         | SingleUrl \<Rightarrow> 1
                         | UrlArray n \<Rightarrow> n),
                      [(GET, sitemapUrl)]))))"

text \<open>\<^verbatim>\<open>{hasHreflang: false}\<close>, or \<^verbatim>\<open>{hasHreflang: true, count, errors}\<close>.\<close>

datatype hreflang_info = NoHreflang | Hreflang nat "string list"

definition validateHreflang :: "cheerio \<Rightarrow> hreflang_info" where
  \<open>validateHreflang doc =
     (let links = doc ''link[rel="alternate"][hreflang]'';
          codes = map (\<lambda>el. map_of (attribs el) ''hreflang'') links
      in if links = [] then NoHreflang
         else Hreflang (length links)
                (if Some ''x-default'' \<in> set codes then [] else [''Missing x-default hreflang'']))\<close>

definition hreflangErrors :: "hreflang_info \<Rightarrow> string list" where
  "hreflangErrors h = (case h of NoHreflang \<Rightarrow> [] | Hreflang n errs \<Rightarrow> errs)"

record pagination_info =
  prevLink :: bool
  nextLink :: bool
  paginated :: bool

definition checkPagination :: "cheerio \<Rightarrow> pagination_info" where
  \<open>checkPagination doc =
     (let p = doc ''link[rel="prev"]'' \<noteq> []; n = doc ''link[rel="next"]'' \<noteq> []
      in \<lparr> prevLink = p, nextLink = n, paginated = (p \<or> n) \<rparr>)\<close>

text \<open>
  \<^verbatim>\<open>parseInt(s, 10)\<close>: leading white space, an optional sign and the digits that follow;
  \<open>None\<close> is \<^verbatim>\<open>NaN\<close>.
\<close>

definition digitsValue :: "string \<Rightarrow> nat" where
  "digitsValue ds = foldl (\<lambda>n d. 10 * n + (of_char d - 48)) 0 ds"

definition parseInt :: "string \<Rightarrow> int option" where
  "parseInt s =
     (let t = dropWhile isSpace s;
          negative = startsWith t ''-'';
          r = (if startsWith t ''-'' \<or> startsWith t ''+'' then drop 1 t else t);
          ds = takeWhile isDigit r
      in if ds = [] then None
         else Some (if negative then - int (digitsValue ds) else int (digitsValue ds)))"

record image_size_info =
  sampled :: nat
  avgSize :: int

text \<open>
  The loop of \<^verbatim>\<open>checkImageSizes\<close> over the selected images, with the running total and
  count; an image without \<^verbatim>\<open>src\<close>, with a \<^verbatim>\<open>src\<close> that does not resolve, whose request
  fails or whose length is missing or zero is skipped.
\<close>

fun imageSizeLoop ::
  "world \<Rightarrow> string \<Rightarrow> element list \<Rightarrow> int \<Rightarrow> nat \<Rightarrow> (int \<times> nat) \<times> call list" where
  "imageSizeLoop w pageUrl [] sumBytes counted = ((sumBytes, counted), [])"
| "imageSizeLoop w pageUrl (img # imgs) sumBytes counted =
     (case map_of (attribs img) ''src'' of
        None \<Rightarrow> imageSizeLoop w pageUrl imgs sumBytes counted
      | Some src \<Rightarrow>
          (if src = [] then imageSizeLoop w pageUrl imgs sumBytes counted
           else
             (case resolveURL w src pageUrl of
                None \<Rightarrow> imageSizeLoop w pageUrl imgs sumBytes counted
              | Some absUrl \<Rightarrow>
                  (case request w HEAD absUrl of
                     Failed code message \<Rightarrow>
                       (case imageSizeLoop w pageUrl imgs sumBytes counted of
                          (r, calls) \<Rightarrow> (r, (HEAD, absUrl) # calls))
                   | Replied headRes \<Rightarrow>
                       (case parseInt
                               (case header (headers headRes) ''content-length'' of
                                  None \<Rightarrow> ''0''
                                | Some v \<Rightarrow> if v = [] then ''0'' else v) of
                          None \<Rightarrow>
                            (case imageSizeLoop w pageUrl imgs sumBytes counted of
                               (r, calls) \<Rightarrow> (r, (HEAD, absUrl) # calls))
                        | Some len \<Rightarrow>
                            (case (if len \<noteq> 0
                                   then imageSizeLoop w pageUrl imgs (sumBytes + len) (counted + 1)
                                   else imageSizeLoop w pageUrl imgs sumBytes counted) of
                               (r, calls) \<Rightarrow> (r, (HEAD, absUrl) # calls)))))))"

definition checkImageSizes :: "world \<Rightarrow> cheerio \<Rightarrow> string \<Rightarrow> image_size_info \<times> call list" where
  "checkImageSizes w doc pageUrl =
     (case imageSizeLoop w pageUrl (take 5 (doc ''img'')) 0 0 of
        ((sumBytes, counted), calls) \<Rightarrow>
          (\<lparr> sampled = counted,
             avgSize = (if counted \<noteq> 0 then Math_round (of_int sumBytes / of_nat counted) else 0) \<rparr>,
           calls))"

text \<open>
  \<^verbatim>\<open>cc.match(/max-age=(\d+)/)\<close>: the digits after the first \<^verbatim>\<open>max-age=\<close> that is
  followed by a digit.
\<close>

fun maxAgeMatch :: "string \<Rightarrow> string option" where
  "maxAgeMatch [] = None"
| "maxAgeMatch (c # cs) =
     (if startsWith (c # cs) ''max-age='' \<and> takeWhile isDigit (drop 8 (c # cs)) \<noteq> []
      then Some (takeWhile isDigit (drop 8 (c # cs)))
      else maxAgeMatch cs)"

record caching_info =
  cacheControl :: string
  maxAgeSeconds :: nat
  good :: bool

definition evaluateCaching :: "(string \<times> string) list \<Rightarrow> caching_info" where
  "evaluateCaching hs =
     (let cc = orEmpty (header hs ''cache-control'');
          maxAge = (case maxAgeMatch cc of None \<Rightarrow> 0 | Some ds \<Rightarrow> digitsValue ds)
      in \<lparr> cacheControl = cc, maxAgeSeconds = maxAge, good = (2592000 < maxAge) \<rparr>)"

record mixed_content_info =
  mixedCount :: nat

definition mixedContentCheck :: "cheerio \<Rightarrow> string \<Rightarrow> mixed_content_info" where
  \<open>mixedContentCheck doc pageUrl =
     (if \<not> startsWith pageUrl ''https://'' then \<lparr> mixedCount = 0 \<rparr>
      else \<lparr> mixedCount =
               length (doc (''img[src^="http://"], script[src^="http://"], ''
                            @ ''link[href^="http://"], iframe[src^="http://"]'')) \<rparr>)\<close>

record structured_data_validation =
  errors :: nat

definition validateStructuredData :: "world \<Rightarrow> cheerio \<Rightarrow> structured_data_validation" where
  \<open>validateStructuredData w doc =
     \<lparr> errors =
         length (filter (\<lambda>el. \<not> jsonParses w (innerHtml el))
                   (doc ''script[type="application/ld+json"]'')) \<rparr>\<close>

subsection \<open>The report\<close>

record heading_counts =
  h1 :: nat
  h2 :: nat
  h3 :: nat
  h4 :: nat
  h5 :: nat
  h6 :: nat

text \<open>
  The \<^verbatim>\<open>analysis\<close> object of the response: the heading profile and the other fields, as
  the handler lists them.
\<close>

record analysis = heading_profile +
  title :: string
  metaDescription :: string
  imgCount :: nat
  imgWithAltCount :: nat
  internalLinks :: nat
  externalLinks :: nat
  canonicalUrl :: string
  robotsMeta :: string
  keywordsMeta :: string
  headings :: heading_counts
  hasSSL :: bool
  hasMobileViewport :: bool
  viewportMeta :: string
  scriptCount :: nat
  cssCount :: nat
  inlineStyles :: nat
  textToCodeRatio :: js_number
  keywordDensity :: rat
  totalImages :: nat
  totalVideos :: nat
  structuredDataCount :: nat
  socialMediaTags :: nat
  openGraphTags :: nat
  twitterTags :: nat
  technicalScore :: int
  contentScore :: int
  performanceScore :: int
  overallScore :: int
  robotsInfo :: robots_info
  sitemapInfo :: sitemap_info
  hreflangInfo :: hreflang_info
  paginationInfo :: pagination_info
  imageSizeInfo :: image_size_info
  cachingInfo :: caching_info
  mixedContentInfo :: mixed_content_info
  structuredDataValidation :: structured_data_validation
  timestamp :: string

text \<open>
  The body of a response: \<^verbatim>\<open>{error}\<close>, \<^verbatim>\<open>{error, message}\<close> with the message of the
  error that was caught, or \<^verbatim>\<open>{url, analysis, recommendations}\<close>.
\<close>

datatype body =
    ErrorBody string
  | ErrorWithMessage string thrown
  | Report string analysis "string list"

record response =
  statusCode :: nat
  json :: body

subsection \<open>Recommendations\<close>

fun joinWith :: "string \<Rightarrow> string list \<Rightarrow> string" where
  "joinWith sep [] = []"
| "joinWith sep [x] = x"
| "joinWith sep (x # y # ys) = x @ sep @ joinWith sep (y # ys)"

text \<open>The rules evaluated before the crawl probes, and those evaluated after them.\<close>

definition basicRecommendations :: "bool \<Rightarrow> nat \<Rightarrow> nat \<Rightarrow> nat \<Rightarrow> rat \<Rightarrow> nat \<Rightarrow> string list" where
  "basicRecommendations mobile nH1 nImg nImgAlt density nStructured =
     (if \<not> mobile then [''Add a viewport meta tag for mobile responsiveness''] else [])
     @ (if nH1 = 0 then [''Add at least one H1 heading''] else [])
     @ (if nImgAlt < nImg then [''Add alt text to '' @ showNat (nImg - nImgAlt) @ '' images'']
        else [])
     @ (if density < 0.5 then [''Use your primary keyword more frequently in body copy'']
        else [])
     @ (if nStructured = 0 then [''Implement schema.org structured data''] else [])"

definition crawlRecommendations ::
  "robots_info \<Rightarrow> sitemap_info \<Rightarrow> hreflang_info \<Rightarrow> mixed_content_info \<Rightarrow> caching_info
     \<Rightarrow> structured_data_validation \<Rightarrow> string list" where
  "crawlRecommendations robots sitemap hreflang mixed caching validation =
     (if \<not> robotsExists robots then [''Add a robots.txt''] else [])
     @ (if \<not> sitemapExists sitemap
        then [''Add a sitemap.xml and reference it in robots.txt''] else [])
     @ (if hreflangErrors hreflang \<noteq> []
        then [''Fix hreflang issues: '' @ joinWith '', '' (hreflangErrors hreflang)] else [])
     @ (if mixedCount mixed \<noteq> 0
        then [showNat (mixedCount mixed) @ '' insecure (HTTP) assets found on HTTPS page'']
        else [])
     @ (if \<not> good caching
        then [''Serve static assets with far-future Cache-Control headers''] else [])
     @ (if errors validation \<noteq> 0
        then [showNat (errors validation) @ '' structured-data blocks contain invalid JSON'']
        else [])"

subsection \<open>The analysis of a fetched page\<close>

text \<open>
  What a run of the handler reads from the clock and the random number generator: the
  request id that prefixes its log lines, and the time stamp of the report.
\<close>

record moment =
  requestId :: string
  isoTime :: string

text \<open>
  The part of the handler after the keyword density: nothing in it throws. The probes
  are awaited one after the other, so the calls are issued in this order. The results of
  \<^verbatim>\<open>analyzeImageOptimization\<close> and \<^verbatim>\<open>analyzeURLStructure\<close> are computed by the handler
  but never read, and are left out.
\<close>

definition compileReport ::
  "world \<Rightarrow> moment \<Rightarrow> string \<Rightarrow> string http_response \<Rightarrow> string \<Rightarrow> rat
     \<Rightarrow> (analysis \<times> string list) \<times> call list" where
  \<open>compileReport w run url response host density =
     (let htmlContent = data response;
          doc = load w htmlContent;
          profile = detectHeadings doc htmlContent;
          viewport = orEmpty (attr (doc ''meta[name="viewport"]'') ''content'');
          mobile = includesStr viewport ''width=device-width'';
          canonical = orEmpty (attr (doc ''link[rel="canonical"]'') ''href'');
          robots = orEmpty (attr (doc ''meta[name="robots"]'') ''content'');
          ssl = startsWith url ''https://'';
          nImg = length (doc ''img'');
          nImgAlt = length (doc ''img[alt]'');
          nScript = length (doc ''script'');
          nCss = length (doc ''link[rel="stylesheet"]'');
          ratio = quotient (length (textOf (doc ''body''))) (length htmlContent);
          nStructured = length (doc ''script[type="application/ld+json"]'');
          nOpenGraph = length (doc ''meta[property^="og:"]'');
          nTwitter = length (doc ''meta[name^="twitter:"]'');
          totalResourceHints =
            length (doc ''link[rel="preload"], link[rel="preconnect"], link[rel="dns-prefetch"]'');
          (securityHeaders, calls1) = checkSecurityHeaders w url;
          technical =
            calculateTechnicalScore ssl mobile canonical robots totalResourceHints securityHeaders;
          content = calculateContentScore ratio (h1Count profile) (h2Count profile) density;
          performance = calculatePerformanceScore nScript nCss;
          (robotsI, calls2) = fetchRobotsTxt w url;
          (sitemapI, calls3) = fetchXmlSitemap w url;
          hreflang = validateHreflang doc;
          (imageSizes, calls4) = checkImageSizes w doc url;
          caching = evaluateCaching (headers response);
          mixed = mixedContentCheck doc url;
          validation = validateStructuredData w doc
      in ((\<lparr> h1Count = h1Count profile,
             h2Count = h2Count profile,
             h3Count = h3Count profile,
             h4Count = h4Count profile,
             h5Count = h5Count profile,
             h6Count = h6Count profile,
             h1Text = h1Text profile,
             title = cleanTitle (textOf (doc ''title'')),
             metaDescription = orEmpty (attr (doc ''meta[name="description"]'') ''content''),
             imgCount = nImg,
             imgWithAltCount = nImgAlt,
             internalLinks =
               length (doc (''a[href^="/"], a[href^="'' @ url @ ''"], a[href^="http://'' @ host
                            @ ''"], a[href^="https://'' @ host @ ''"]'')),
             externalLinks =
               length (doc (''a[href^="http"]:not([href^="'' @ url @ ''"]):not([href^="http://''
                            @ host @ ''"]):not([href^="https://'' @ host @ ''"])'')),
             canonicalUrl = canonical,
             robotsMeta = robots,
             keywordsMeta = orEmpty (attr (doc ''meta[name="keywords"]'') ''content''),
             headings =
               \<lparr> h1 = h1Count profile, h2 = h2Count profile, h3 = h3Count profile,
                 h4 = h4Count profile, h5 = h5Count profile, h6 = h6Count profile \<rparr>,
             hasSSL = ssl,
             hasMobileViewport = mobile,
             viewportMeta = viewport,
             scriptCount = nScript,
             cssCount = nCss,
             inlineStyles = length (doc ''style''),
             textToCodeRatio = ratio,
             keywordDensity = density,
             totalImages = nImg,
             totalVideos = length (doc ''video, iframe[src*="youtube"], iframe[src*="vimeo"]''),
             structuredDataCount = nStructured,
             socialMediaTags = nOpenGraph + nTwitter,
             openGraphTags = nOpenGraph,
             twitterTags = nTwitter,
             technicalScore = technical,
             contentScore = content,
             performanceScore = performance,
             overallScore = calculateWeightedScore technical content performance,
             robotsInfo = robotsI,
             sitemapInfo = sitemapI,
             hreflangInfo = hreflang,
             paginationInfo = checkPagination doc,
             imageSizeInfo = imageSizes,
             cachingInfo = caching,
             mixedContentInfo = mixed,
             structuredDataValidation = validation,
             timestamp = isoTime run \<rparr>,
           basicRecommendations mobile (h1Count profile) nImg nImgAlt density nStructured
           @ crawlRecommendations robotsI sitemapI hreflang mixed caching validation),
          calls1 @ calls2 @ calls3 @ calls4))\<close>

text \<open>
  The analysis of the fetched response. When the data is not a string, the heading
  regexes have no \<^verbatim>\<open>match\<close> method to call. \<^verbatim>\<open>new URL(url)\<close>, in the selector of the
  internal links, throws for a URL it cannot parse; the keyword density throws for a
  keyword that is not a regular expression. All three come before the first probe.
\<close>

definition analyse ::
  "world \<Rightarrow> moment \<Rightarrow> string \<Rightarrow> json_value http_response
     \<Rightarrow> (thrown + analysis \<times> string list) \<times> call list" where
  "analyse w run url fetched =
     (case asText fetched of
        None \<Rightarrow> (Inl NotAString, [])
      | Some response \<Rightarrow>
          (case hostnameOf w url of
             None \<Rightarrow> (Inl InvalidURL, [])
           | Some host \<Rightarrow>
               (case estimateKeywordDensity (regexEngine w)
                       (cleanTitle (textOf (load w (data response) ''title'')))
                       (textOf (load w (data response) ''body'')) of
                  Inl e \<Rightarrow> (Inl e, [])
                | Inr density \<Rightarrow>
                    (case compileReport w run url response host density of
                       (r, calls) \<Rightarrow> (Inr r, calls)))))"

subsection \<open>The handler\<close>

text \<open>The \<^verbatim>\<open>catch\<close> block of the handler.\<close>

definition errorResponse :: "thrown \<Rightarrow> response" where
  "errorResponse e =
     (case e of
        RequestFailed code message \<Rightarrow>
          (if code = ''ENOTFOUND'' \<or> code = ''ECONNREFUSED''
           then \<lparr> statusCode = 400,
                  json = ErrorBody
                    ''Could not connect to the website. Please check the URL and try again.'' \<rparr>
           else \<lparr> statusCode = 500, json = ErrorWithMessage ''Failed to analyze URL'' e \<rparr>)
      | BadStatus st reason \<Rightarrow>
          (if st \<noteq> 0
           then \<lparr> statusCode = st,
                  json = ErrorBody
                    (''Website returned an error: '' @ showNat st @ '' '' @ reason) \<rparr>
           else \<lparr> statusCode = 500, json = ErrorWithMessage ''Failed to analyze URL'' e \<rparr>)
      | NotAString \<Rightarrow> \<lparr> statusCode = 500, json = ErrorWithMessage ''Failed to analyze URL'' e \<rparr>
      | InvalidURL \<Rightarrow> \<lparr> statusCode = 500, json = ErrorWithMessage ''Failed to analyze URL'' e \<rparr>
      | InvalidRegExp keyword \<Rightarrow>
          \<lparr> statusCode = 500, json = ErrorWithMessage ''Failed to analyze URL'' e \<rparr>)"

text \<open>
  The handler: the response, and the calls issued on the way, in order. The body of the
  request is the map from its property names to their values: the \<^verbatim>\<open>url\<close> property is
  missing or a JSON value.
\<close>

definition handler ::
  "world \<Rightarrow> moment \<Rightarrow> (string \<rightharpoonup> json_value) \<Rightarrow> response \<times> call list" where
  "handler w run reqBody =
     (case reqBody ''url'' of
        None \<Rightarrow> (\<lparr> statusCode = 400, json = ErrorBody ''Invalid URL provided'' \<rparr>, [])
      | Some v \<Rightarrow>
          (if falsy v then (\<lparr> statusCode = 400, json = ErrorBody ''Invalid URL provided'' \<rparr>, [])
           else
             (case stringOf v of
                None \<Rightarrow> (\<lparr> statusCode = 400, json = ErrorBody ''Invalid URL provided'' \<rparr>, [])
              | Some url \<Rightarrow>
                  (case axiosGet w url of
                     Inl e \<Rightarrow> (errorResponse e, [(GET, url)])
                   | Inr fetched \<Rightarrow>
                       (case analyse w run url fetched of
                          (Inl e, calls) \<Rightarrow> (errorResponse e, (GET, url) # calls)
                        | (Inr (a, recommendations), calls) \<Rightarrow>
                            (\<lparr> statusCode = 200, json = Report url a recommendations \<rparr>,
                             (GET, url) # calls))))))"

subsection \<open>Reports, runs and example worlds\<close>

text \<open>
  The analysis and the recommendations of the report that the handler compiles for a
  page. Every report the handler sends is of this form (lemma \<open>handler_report\<close> below),
  so a property of \<open>analysisOf\<close> for all arguments is a property of every report.
\<close>

definition analysisOf ::
  "world \<Rightarrow> moment \<Rightarrow> string \<Rightarrow> string http_response \<Rightarrow> string \<Rightarrow> rat \<Rightarrow> analysis"
  where
  "analysisOf w run url response host density =
     fst (fst (compileReport w run url response host density))"

definition recommendationsOf ::
  "world \<Rightarrow> moment \<Rightarrow> string \<Rightarrow> string http_response \<Rightarrow> string \<Rightarrow> rat
     \<Rightarrow> string list" where
  "recommendationsOf w run url response host density =
     snd (fst (compileReport w run url response host density))"

text \<open>A response with the time stamp of its report, if it carries one, replaced.\<close>

definition withTimestamp :: "string \<Rightarrow> response \<Rightarrow> response" where
  "withTimestamp t r =
     (case json r of
        Report u a recs \<Rightarrow> r\<lparr> json := Report u (a\<lparr> timestamp := t \<rparr>) recs \<rparr>
      | ErrorBody e \<Rightarrow> r
      | ErrorWithMessage e m \<Rightarrow> r)"

text \<open>
  A small world for the examples: the page \<^verbatim>\<open>http://example.com/\<close> is served over HTTP,
  its markup has an \<^verbatim>\<open>h1\<close> that is never closed and an image loaded over HTTP, its
  \<^verbatim>\<open>robots.txt\<close> has one disallow rule, and every other request times out. In the
  second world the site has no \<^verbatim>\<open>robots.txt\<close>; in the third the site answers the
  requests for \<^verbatim>\<open>robots.txt\<close> and \<^verbatim>\<open>sitemap.xml\<close> with status 200 and the JSON body
  \<^verbatim>\<open>{}\<close>; in the last nothing answers and no URL parses.
\<close>

definition anElement :: element where
  "anElement =
     \<lparr> attribs = [(''src'', ''http://cdn.example.com/a.png'')],
       textContent = ''Sale'', innerHtml = ''Sale'' \<rparr>"

definition examplePage :: "string http_response" where
  "examplePage = \<lparr> status = 200, statusText = ''OK'', headers = [], data = ''<h1>Sale'' \<rparr>"

definition exampleWorld :: world where
  \<open>exampleWorld =
     \<lparr> request =
         (\<lambda>m u.
            if m = GET \<and> u = ''http://example.com/'' then Replied (textResponse examplePage)
            else if m = GET \<and> u = ''http://example.com/robots.txt''
            then Replied
                   \<lparr> status = 200, statusText = ''OK'', headers = [],
                     data =
                       JString ''User-agent: *\<newline>Disallow: /private\<newline>Allow: /'' \<rparr>
            else Failed ''ETIMEDOUT'' ''timeout of 10000ms exceeded''),
       load =
         (\<lambda>html sel.
            if sel = ''h1'' \<or> sel = ''img''
               \<or> sel = ''img[src^="http://"], script[src^="http://"], ''
                        @ ''link[href^="http://"], iframe[src^="http://"]''
            then [anElement] else []),
       hostnameOf = (\<lambda>u. if u = ''http://example.com/'' then Some ''example.com'' else None),
       resolveURL =
         (\<lambda>rel base.
            if base = ''http://example.com/'' \<and> startsWith rel ''/''
            then Some (''http://example.com'' @ rel) else None),
       regexEngine = (\<lambda>pattern subject. Matches 0),
       parseSitemap = (\<lambda>xml. NoUrlEntry),
       jsonParses = (\<lambda>txt. True) \<rparr>\<close>

definition noRobotsWorld :: world where
  "noRobotsWorld =
     exampleWorld
       \<lparr> request :=
           (\<lambda>m u.
              if m = GET \<and> u = ''http://example.com/robots.txt''
              then Replied
                     \<lparr> status = 404, statusText = ''Not Found'', headers = [],
                       data = JString [] \<rparr>
              else request exampleWorld m u) \<rparr>"

definition jsonWorld :: world where
  "jsonWorld =
     exampleWorld
       \<lparr> request :=
           (\<lambda>m u.
              if m = GET
                 \<and> (u = ''http://example.com/robots.txt'' \<or> u = ''http://example.com/sitemap.xml'')
              then Replied \<lparr> status = 200, statusText = ''OK'', headers = [], data = JObject [] \<rparr>
              else request exampleWorld m u) \<rparr>"



definition refusingWorld :: world where
  "refusingWorld =
     exampleWorld
       \<lparr> request := (\<lambda>m u. Failed ''ECONNREFUSED'' ''connect ECONNREFUSED 127.0.0.1:80''),
         hostnameOf := (\<lambda>u. None),
         resolveURL := (\<lambda>rel base. None) \<rparr>"

definition aMoment :: moment where
  "aMoment = \<lparr> requestId = ''lq3x9k0abc'', isoTime = ''2024-05-01T12:00:00.000Z'' \<rparr>"

section \<open>Properties\<close>

subsection \<open>The reports of the handler\<close>


lemma handler_report:
  assumes "json (fst (handler w run reqBody)) = Report u a recs"
  shows "\<exists>fetched response host density.
           reqBody ''url'' = Some (JString u) \<and> u \<noteq> []
           \<and> request w GET u = Replied fetched
           \<and> 200 \<le> status fetched \<and> status fetched < 300
           \<and> asText fetched = Some response
           \<and> hostnameOf w u = Some host
           \<and> estimateKeywordDensity (regexEngine w)
                (cleanTitle (textOf (load w (data response) ''title'')))
                (textOf (load w (data response) ''body'')) = Inr density
           \<and> a = analysisOf w run u response host density
           \<and> recs = recommendationsOf w run u response host density
           \<and> statusCode (fst (handler w run reqBody)) = 200"
proof (cases "reqBody ''url''")
  case None
  with assms show ?thesis by (simp add: handler_def)
next
  case (Some v)
  show ?thesis
  proof (cases v)
    case (JString url)
    with Some assms show ?thesis
      by (auto simp: handler_def axiosGet_def analyse_def analysisOf_def
            recommendationsOf_def errorResponse_def
          split: if_splits outcome.splits sum.splits option.splits prod.splits thrown.splits)
  qed (use Some assms in \<open>simp_all add: handler_def split: if_splits\<close>)
qed

subsection \<open>Heading counts\<close>

lemma analysisOf_profile:
  "h1Count (analysisOf w run url response host density) =
     h1Count (detectHeadings (load w (data response)) (data response))"
  "h2Count (analysisOf w run url response host density) =
     h2Count (detectHeadings (load w (data response)) (data response))"
  "h3Count (analysisOf w run url response host density) =
     h3Count (detectHeadings (load w (data response)) (data response))"
  "h4Count (analysisOf w run url response host density) =
     h4Count (detectHeadings (load w (data response)) (data response))"
  "h5Count (analysisOf w run url response host density) =
     h5Count (detectHeadings (load w (data response)) (data response))"
  "h6Count (analysisOf w run url response host density) =
     h6Count (detectHeadings (load w (data response)) (data response))"
  "h1Text (analysisOf w run url response host density) =
     h1Text (detectHeadings (load w (data response)) (data response))"
  by (simp_all add: analysisOf_def compileReport_def Let_def split: prod.splits)

lemma analysisOf_headings:
  "headings (analysisOf w run url response host density) =
     \<lparr> h1 = h1Count (analysisOf w run url response host density),
       h2 = h2Count (analysisOf w run url response host density),
       h3 = h3Count (analysisOf w run url response host density),
       h4 = h4Count (analysisOf w run url response host density),
       h5 = h5Count (analysisOf w run url response host density),
       h6 = h6Count (analysisOf w run url response host density) \<rparr>"
  by (simp add: analysisOf_def compileReport_def Let_def split: prod.splits)

lemma detectHeadings_counts:
  "h1Count (detectHeadings doc html) =
     Max {length (doc ''h1''), length (regexHeadings (CHR ''1'') html),
          length (bruteHeadings (CHR ''1'') html)}"
  "h2Count (detectHeadings doc html) =
     Max {length (doc ''h2''), length (regexHeadings (CHR ''2'') html),
          rawCount (CHR ''2'') html, length (bruteHeadings (CHR ''2'') html)}"
  "h3Count (detectHeadings doc html) =
     Max {length (doc ''h3''), length (regexHeadings (CHR ''3'') html),
          rawCount (CHR ''3'') html}"
  "h4Count (detectHeadings doc html) =
     Max {length (doc ''h4''), length (regexHeadings (CHR ''4'') html)}"
  "h5Count (detectHeadings doc html) =
     Max {length (doc ''h5''), length (regexHeadings (CHR ''5'') html)}"
  "h6Count (detectHeadings doc html) =
     Max {length (doc ''h6''), length (regexHeadings (CHR ''6'') html)}"
  by (auto simp: detectHeadings_def Let_def bruteAdjust_def max_def)

text \<open>
  Claim C1. In every report, the count of each heading level is the maximum of the
  counts of the strategies that examine the level: the cheerio count and the regex count
  for every level, the raw substring count for h2 and h3, and the count of the regex on
  the comment-stripped markup for h1 and h2. So it is at least each of them.
\<close>

theorem heading_counts_are_maxima:
  "(let a = analysisOf w run url response host density;
        doc = load w (data response);
        html = data response
    in h1Count a = Max {length (doc ''h1''), length (regexHeadings (CHR ''1'') html),
                        length (bruteHeadings (CHR ''1'') html)}
       \<and> h2Count a = Max {length (doc ''h2''), length (regexHeadings (CHR ''2'') html),
                          rawCount (CHR ''2'') html, length (bruteHeadings (CHR ''2'') html)}
       \<and> h3Count a = Max {length (doc ''h3''), length (regexHeadings (CHR ''3'') html),
                          rawCount (CHR ''3'') html}
       \<and> h4Count a = Max {length (doc ''h4''), length (regexHeadings (CHR ''4'') html)}
       \<and> h5Count a = Max {length (doc ''h5''), length (regexHeadings (CHR ''5'') html)}
       \<and> h6Count a = Max {length (doc ''h6''), length (regexHeadings (CHR ''6'') html)}
       \<and> length (doc ''h1'') \<le> h1Count a
       \<and> length (regexHeadings (CHR ''1'') html) \<le> h1Count a
       \<and> length (bruteHeadings (CHR ''1'') html) \<le> h1Count a
       \<and> length (doc ''h2'') \<le> h2Count a
       \<and> length (regexHeadings (CHR ''2'') html) \<le> h2Count a
       \<and> rawCount (CHR ''2'') html \<le> h2Count a
       \<and> length (bruteHeadings (CHR ''2'') html) \<le> h2Count a
       \<and> length (doc ''h3'') \<le> h3Count a
       \<and> length (regexHeadings (CHR ''3'') html) \<le> h3Count a
       \<and> rawCount (CHR ''3'') html \<le> h3Count a
       \<and> length (doc ''h4'') \<le> h4Count a
       \<and> length (regexHeadings (CHR ''4'') html) \<le> h4Count a
       \<and> length (doc ''h5'') \<le> h5Count a
       \<and> length (regexHeadings (CHR ''5'') html) \<le> h5Count a
       \<and> length (doc ''h6'') \<le> h6Count a
       \<and> length (regexHeadings (CHR ''6'') html) \<le> h6Count a
       \<and> headings a = \<lparr> h1 = h1Count a, h2 = h2Count a, h3 = h3Count a,
                          h4 = h4Count a, h5 = h5Count a, h6 = h6Count a \<rparr>)"
  unfolding Let_def analysisOf_profile detectHeadings_counts
  by (simp add: analysisOf_headings analysisOf_profile detectHeadings_counts le_max_iff_disj)

subsection \<open>The text of the first h1\<close>

lemma matchAll_results: "x \<in> set (matchAll m k s) \<Longrightarrow> \<exists>t. m t = Some x"
  by (induction s arbitrary: k) (auto split: if_splits option.splits)

lemma headingAt_nonempty: "headingAt d s = Some x \<Longrightarrow> x \<noteq> []"
  by (auto simp: headingAt_def split: if_splits list.splits option.splits)

lemma detectHeadings_h1Text:
  "h1Text (detectHeadings doc html) =
     (case regexHeadings (CHR ''1'') html of
        [] \<Rightarrow> []
      | first # rest \<Rightarrow> trim (removeMatches tagAt 0 first))"
proof (cases "regexHeadings (CHR ''1'') html")
  case Nil
  then show ?thesis by (simp add: detectHeadings_def Let_def)
next
  case (Cons first rest)
  then have "first \<in> set (matchAll (headingAt (CHR ''1'')) 0 html)"
    by (simp add: regexHeadings_def)
  then have "first \<noteq> []"
    using matchAll_results headingAt_nonempty by blast
  with Cons show ?thesis by (simp add: detectHeadings_def Let_def)
qed

lemma examplePage_data: "data examplePage = ''<h1>Sale''"
  by (simp add: examplePage_def)

lemma unclosed_h1_has_no_match: "regexHeadings (CHR ''1'') ''<h1>Sale'' = []"
  by (simp add: regexHeadings_def headingAt_def toLowerChar_def)

lemma unclosed_h1_has_no_brute_match: "bruteHeadings (CHR ''1'') ''<h1>Sale'' = []"
  by (simp add: bruteHeadings_def strippedHtml_def commentAt_def startsWith_def headingAt_def
        toLowerChar_def)

lemma unclosed_h1_is_counted:
  "h1Count (analysisOf exampleWorld aMoment ''http://example.com/'' examplePage
      ''example.com'' 0) = 1"
  by (simp add: analysisOf_profile detectHeadings_counts examplePage_data
        unclosed_h1_has_no_match unclosed_h1_has_no_brute_match exampleWorld_def)

text \<open>
  Claim C9. The reported \<open>h1Text\<close> comes from the first match of the h1 regex alone: it
  is that match with its tags removed, trimmed, and it is empty whenever the regex finds
  no match, whatever the h1 count of the report is.
\<close>

theorem h1Text_from_first_regex_match:
  "h1Text (analysisOf w run url response host density) =
     (case regexHeadings (CHR ''1'') (data response) of
        [] \<Rightarrow> []
      | first # rest \<Rightarrow> trim (removeMatches tagAt 0 first))"
  by (simp add: analysisOf_profile detectHeadings_h1Text)

text \<open>
  In the example world the h1 is never closed: the regex finds nothing, cheerio counts
  one h1, and the report has \<open>h1Count = 1\<close> with an empty \<open>h1Text\<close>.
\<close>

theorem h1Text_from_first_regex_match_witness:
  "regexHeadings (CHR ''1'') (data examplePage) = []
   \<and> h1Count (analysisOf exampleWorld aMoment ''http://example.com/'' examplePage
        ''example.com'' 0) = 1
   \<and> h1Text (analysisOf exampleWorld aMoment ''http://example.com/'' examplePage
        ''example.com'' 0) = []"
  using h1Text_from_first_regex_match
          [of exampleWorld aMoment "''http://example.com/''" examplePage "''example.com''" 0]
  by (simp add: unclosed_h1_is_counted unclosed_h1_has_no_match examplePage_data)


subsection \<open>Scores\<close>

lemma analysisOf_overall:
  "overallScore (analysisOf w run url response host density) =
     calculateWeightedScore
       (technicalScore (analysisOf w run url response host density))
       (contentScore (analysisOf w run url response host density))
       (performanceScore (analysisOf w run url response host density))"
  by (simp add: analysisOf_def compileReport_def Let_def split: prod.splits)

lemma weighted_is_round:
  "calculateWeightedScore t c p =
     round (0.4 * of_int t + 0.4 * of_int c + 0.2 * of_int p :: rat)"
  by (simp add: calculateWeightedScore_def Math_round_def round_def mult.commute)

text \<open>
  The weighted sum of three integers is a multiple of one fifth, so it is never within
  one tenth of a value halfway between two integers: the rounding errors of the
  floating-point evaluation of the sum, which the exact rationals of the embedding do
  not have, cannot change the rounded value.
\<close>

lemma weighted_sum_clear_of_ties:
  "1 / 10 \<le> \<bar>(0.4 * of_int t + 0.4 * of_int c + 0.2 * of_int p :: rat) - (of_int n + 1 / 2)\<bar>"
proof -
  define k :: int where "k = 2 * (2 * t + 2 * c + p) - 10 * n - 5"
  have "odd k" by (simp add: k_def)
  then have "k \<noteq> 0" by auto
  then have "1 \<le> \<bar>k\<bar>" by simp
  then have "(1::rat) \<le> \<bar>of_int k\<bar>"
    by (metis of_int_1_le_iff of_int_abs)
  moreover have "(0.4 * of_int t + 0.4 * of_int c + 0.2 * of_int p :: rat) - (of_int n + 1 / 2)
      = of_int k / 10"
    by (simp add: k_def field_simps)
  ultimately show ?thesis by (simp only: abs_divide)
qed

text \<open>
  Hence an evaluation of the sum that is off by less than one tenth rounds to the same
  score.
\<close>

lemma weighted_round_stable:
  fixes e :: rat
  assumes "\<bar>e\<bar> < 1 / 10"
  shows "Math_round (of_int t * 0.4 + of_int c * 0.4 + of_int p * 0.2 + e)
           = calculateWeightedScore t c p"
proof -
  let ?x = "of_int t * 0.4 + of_int c * 0.4 + of_int p * 0.2 :: rat"
  define n where "n = \<lfloor>?x + 1 / 2\<rfloor>"
  have lo: "of_int n \<le> ?x + 1 / 2" and hi: "?x + 1 / 2 < of_int n + 1"
    unfolding n_def by linarith+
  have "1 / 10 \<le> \<bar>?x - (of_int n + 1 / 2)\<bar>"
    using weighted_sum_clear_of_ties [of t c p n] by (simp add: mult.commute)
  with hi have up: "?x + 1 / 2 \<le> of_int n + 9 / 10" by linarith
  have "1 / 10 \<le> \<bar>?x - (of_int (n - 1) + 1 / 2)\<bar>"
    using weighted_sum_clear_of_ties [of t c p "n - 1"] by (simp add: mult.commute)
  with lo have down: "of_int n + 1 / 10 \<le> ?x + 1 / 2" by simp
  have "\<lfloor>?x + e + 1 / 2\<rfloor> = n"
    using assms up down by (intro floor_unique) linarith+
  then show ?thesis
    by (simp add: Math_round_def calculateWeightedScore_def n_def)
qed

text \<open>
  Claim C2. For every triple of sub-scores the weighted score is
  \<open>round (0.4 * technical + 0.4 * content + 0.2 * performance)\<close>, an integer nearest to the
  weighted sum, and the overall score of every report is the weighted score of the three
  sub-scores of that report.
\<close>

theorem overall_score_is_rounded_weighted_sum:
  "calculateWeightedScore t c p =
     round (0.4 * of_int t + 0.4 * of_int c + 0.2 * of_int p :: rat)
   \<and> (\<forall>n. \<bar>(0.4 * of_int t + 0.4 * of_int c + 0.2 * of_int p :: rat)
              - of_int (calculateWeightedScore t c p)\<bar>
            \<le> \<bar>(0.4 * of_int t + 0.4 * of_int c + 0.2 * of_int p :: rat) - of_int n\<bar>)
   \<and> (let a = analysisOf w run url response host density
      in overallScore a =
           round (0.4 * of_int (technicalScore a) + 0.4 * of_int (contentScore a)
                  + 0.2 * of_int (performanceScore a) :: rat))"
  by (simp add: Let_def analysisOf_overall weighted_is_round round_diff_minimal)

lemma technical_range:
  "0 \<le> calculateTechnicalScore ssl mobile canonical robots hints sec"
  "calculateTechnicalScore ssl mobile canonical robots hints sec \<le> 100"
  by (simp_all add: calculateTechnicalScore_def)

lemma content_range:
  "0 \<le> calculateContentScore ratio n1 n2 density"
  "calculateContentScore ratio n1 n2 density \<le> 100"
  by (simp_all add: calculateContentScore_def)

lemma performance_range:
  "0 \<le> calculatePerformanceScore nScript nCss"
  "calculatePerformanceScore nScript nCss \<le> 100"
  by (simp_all add: calculatePerformanceScore_def)

lemma weighted_range:
  assumes "0 \<le> t" "t \<le> 100" "0 \<le> c" "c \<le> 100" "0 \<le> p" "p \<le> 100"
  shows "0 \<le> calculateWeightedScore t c p \<and> calculateWeightedScore t c p \<le> 100"
proof -
  let ?x = "of_int t * 0.4 + of_int c * 0.4 + of_int p * 0.2 :: rat"
  have t: "(0::rat) \<le> of_int t" "(of_int t :: rat) \<le> 100"
    and c: "(0::rat) \<le> of_int c" "(of_int c :: rat) \<le> 100"
    and p: "(0::rat) \<le> of_int p" "(of_int p :: rat) \<le> 100"
    using assms by (simp_all add: of_int_le_iff [of _ 100, where ?'a = rat, simplified])
  have lo: "0 \<le> ?x" using t c p by simp
  have hi: "?x \<le> 100" using t c p by simp
  have "0 \<le> \<lfloor>?x + 1 / 2\<rfloor>" using lo by simp
  moreover have "\<lfloor>?x + 1 / 2\<rfloor> \<le> 100"
    using hi by (simp add: floor_le_iff)
  ultimately show ?thesis by (simp add: calculateWeightedScore_def Math_round_def)
qed

lemma analysisOf_technical_range:
  "0 \<le> technicalScore (analysisOf w run url response host density)"
  "technicalScore (analysisOf w run url response host density) \<le> 100"
  by (simp_all add: analysisOf_def compileReport_def Let_def technical_range split: prod.splits)

lemma analysisOf_content_range:
  "0 \<le> contentScore (analysisOf w run url response host density)"
  "contentScore (analysisOf w run url response host density) \<le> 100"
  by (simp_all add: analysisOf_def compileReport_def Let_def content_range split: prod.splits)

lemma analysisOf_performance_range:
  "0 \<le> performanceScore (analysisOf w run url response host density)"
  "performanceScore (analysisOf w run url response host density) \<le> 100"
  by (simp_all add: analysisOf_def compileReport_def Let_def performance_range
        split: prod.splits)

text \<open>
  Claim C3. In every report the technical, content, performance and overall scores lie
  between 0 and 100.
\<close>

theorem scores_between_0_and_100:
  "(let a = analysisOf w run url response host density
    in 0 \<le> technicalScore a \<and> technicalScore a \<le> 100
       \<and> 0 \<le> contentScore a \<and> contentScore a \<le> 100
       \<and> 0 \<le> performanceScore a \<and> performanceScore a \<le> 100
       \<and> 0 \<le> overallScore a \<and> overallScore a \<le> 100)"
  using weighted_range [OF analysisOf_technical_range analysisOf_content_range
      analysisOf_performance_range, of w run url response host density w run url response
      host density w run url response host density]
  by (simp add: Let_def analysisOf_overall analysisOf_technical_range analysisOf_content_range
        analysisOf_performance_range)

subsection \<open>Mixed content\<close>

lemma analysisOf_mixed:
  "mixedContentInfo (analysisOf w run url response host density) =
     mixedContentCheck (load w (data response)) url"
  by (simp add: analysisOf_def compileReport_def Let_def split: prod.splits)

text \<open>
  Claim C4. When the URL of the page does not start with \<^verbatim>\<open>https://\<close>, the
  mixed-content check returns \<open>mixedCount = 0\<close>, whatever the document contains, and so
  does the report.
\<close>

theorem mixed_count_zero_unless_https:
  "\<not> startsWith url ''https://'' \<Longrightarrow>
     mixedCount (mixedContentCheck doc url) = 0
     \<and> mixedCount (mixedContentInfo (analysisOf w run url response host density)) = 0"
  by (simp add: analysisOf_mixed mixedContentCheck_def)

text \<open>
  The example page is served over HTTP and the selector of the check finds an image
  loaded over HTTP on it.
\<close>

theorem mixed_count_zero_unless_https_witness:
  \<open>\<not> startsWith ''http://example.com/'' ''https://''
   \<and> length (load exampleWorld (data examplePage)
        (''img[src^="http://"], script[src^="http://"], ''
         @ ''link[href^="http://"], iframe[src^="http://"]'')) = 1
   \<and> mixedCount (mixedContentCheck (load exampleWorld (data examplePage))
        ''http://example.com/'') = 0
   \<and> mixedCount (mixedContentInfo (analysisOf exampleWorld aMoment ''http://example.com/''
        examplePage ''example.com'' 0)) = 0\<close>
  using mixed_count_zero_unless_https
          [of "''http://example.com/''" "load exampleWorld (data examplePage)" exampleWorld
              aMoment examplePage "''example.com''" 0]
  by (simp add: startsWith_def exampleWorld_def)

subsection \<open>Keyword density\<close>

lemma splitFields_nonempty: "splitFields inRun cur s \<noteq> []"
  by (induction s arbitrary: inRun cur) auto

text \<open>
  The denominator of the density is at least 1, and a density that is computed is not
  negative. For a keyword without syntax characters the computation returns.
\<close>

lemma density_denominator_positive: "1 \<le> orOne (length (splitWhitespace bodyText))"
  by (cases "splitWhitespace bodyText") (simp_all add: orOne_def)

lemma density_nonnegative:
  "estimateKeywordDensity engine pageTitle bodyText = Inr d \<Longrightarrow> 0 \<le> d"
  by (auto simp: estimateKeywordDensity_def split: if_splits list.splits regex_matches.splits)

lemma density_of_literal_keyword:
  "potentialKeywords pageTitle = keyword # rest
   \<Longrightarrow> list_all (\<lambda>c. \<not> isSyntaxCharacter c) keyword
   \<Longrightarrow> \<exists>d. estimateKeywordDensity engine pageTitle bodyText = Inr d \<and> 0 \<le> d"
  by (auto simp: estimateKeywordDensity_def keywordMatches_def)

text \<open>
  Claim C10 says that the keyword density is computed for every title and body text.
  The handler builds a regular expression from the first keyword of the title without
  escaping it. For the title \<^verbatim>\<open>*new* deals\<close> the keyword is \<^verbatim>\<open>*new*\<close>, the constructor
  throws, and no density is computed, whatever the rest of the engine does.
\<close>

theorem keyword_density_throws_on_quantifier_keyword:
  "estimateKeywordDensity engine ''*new* deals'' ''great deals''
     = Inl (InvalidRegExp ''*new*'')"
  by (simp add: estimateKeywordDensity_def potentialKeywords_def splitWhitespace_def
        toLowerCase_def toLowerChar_def isSpace_def keywordMatches_def isSyntaxCharacter_def
        startsWith_def)

text \<open>The handler answers such a page with status 500.\<close>

lemma handler_fails_on_quantifier_keyword:
  assumes "reqBody ''url'' = Some (JString url)" "url \<noteq> []"
    and "request w GET url = Replied fetched" "200 \<le> status fetched" "status fetched < 300"
    and "asText fetched = Some response"
    and "hostnameOf w url = Some host"
    and "textOf (load w (data response) ''title'') = ''*new* deals''"
    and "textOf (load w (data response) ''body'') = ''great deals''"
  shows "fst (handler w run reqBody) =
           \<lparr> statusCode = 500,
             json = ErrorWithMessage ''Failed to analyze URL'' (InvalidRegExp ''*new*'') \<rparr>"
proof -
  have "cleanTitle ''*new* deals'' = ''*new* deals''"
    by (simp add: cleanTitle_def startsWith_def)
  then have "estimateKeywordDensity (regexEngine w)
      (cleanTitle (textOf (load w (data response) ''title'')))
      (textOf (load w (data response) ''body'')) = Inl (InvalidRegExp ''*new*'')"
    using assms
    by (simp add: estimateKeywordDensity_def potentialKeywords_def splitWhitespace_def
        toLowerCase_def toLowerChar_def isSpace_def keywordMatches_def isSyntaxCharacter_def
        startsWith_def)
  with assms show ?thesis
    by (simp add: handler_def axiosGet_def analyse_def errorResponse_def)
qed


subsection \<open>Requests without a usable URL\<close>

text \<open>
  Claim C5, as amended. When the \<^verbatim>\<open>url\<close> property of the request is missing, falsy
  (\<^verbatim>\<open>null\<close>, \<^verbatim>\<open>false\<close>, \<^verbatim>\<open>0\<close>, the empty string) or not a string, the handler
  answers 400 and issues no call.
\<close>

theorem request_without_url_string_is_rejected:
  "(case reqBody ''url'' of None \<Rightarrow> True | Some v \<Rightarrow> falsy v \<or> stringOf v = None)
   \<Longrightarrow> handler w run reqBody =
         (\<lparr> statusCode = 400, json = ErrorBody ''Invalid URL provided'' \<rparr>, [])"
  by (auto simp: handler_def split: option.splits)

theorem request_without_url_string_is_rejected_witness:
  "(case [''url'' \<mapsto> JNumber 42] ''url'' of
      None \<Rightarrow> True
    | Some v \<Rightarrow> falsy v \<or> stringOf v = None)
   \<and> handler exampleWorld aMoment [''url'' \<mapsto> JNumber 42] =
         (\<lparr> statusCode = 400, json = ErrorBody ''Invalid URL provided'' \<rparr>, [])"
  using request_without_url_string_is_rejected
          [of "[''url'' \<mapsto> JNumber 42]" exampleWorld aMoment]
  by simp

text \<open>
  The handler checks nothing else about the URL: every non-empty string is handed to
  axios. For the string \<^verbatim>\<open>not a url\<close>, which the URL parser of the world rejects, the
  request is issued all the same; here the connection is refused, and the status 400 of
  the response is that of the \<^verbatim>\<open>catch\<close> block.
\<close>

lemma every_url_string_is_fetched:
  "reqBody ''url'' = Some (JString url) \<Longrightarrow> url \<noteq> []
   \<Longrightarrow> \<exists>rest. snd (handler w run reqBody) = (GET, url) # rest"
  by (auto simp: handler_def split: sum.splits prod.splits)

theorem malformed_url_is_fetched:
  "hostnameOf refusingWorld ''not a url'' = None
   \<and> handler refusingWorld aMoment [''url'' \<mapsto> JString ''not a url''] =
       (\<lparr> statusCode = 400,
          json = ErrorBody
            ''Could not connect to the website. Please check the URL and try again.'' \<rparr>,
        [(GET, ''not a url'')])
   \<and> snd (handler refusingWorld aMoment [''url'' \<mapsto> JString ''not a url'']) \<noteq> []"
  by (simp add: handler_def axiosGet_def errorResponse_def refusingWorld_def)

subsection \<open>The security-header probe\<close>









subsection \<open>The robots.txt probe\<close>

lemma analysisOf_robots:
  "robotsInfo (analysisOf w run url response host density) = fst (fetchRobotsTxt w url)"
  by (simp add: analysisOf_def compileReport_def Let_def split: prod.splits)

lemma analysisOf_sitemap:
  "sitemapInfo (analysisOf w run url response host density) = fst (fetchXmlSitemap w url)"
  by (simp add: analysisOf_def compileReport_def Let_def split: prod.splits)

lemma crawlRecommendations_robots:
  "\<not> robotsExists robots
   \<Longrightarrow> ''Add a robots.txt''
         \<in> set (crawlRecommendations robots sitemap hreflang mixed caching validation)"
  by (simp add: crawlRecommendations_def)

lemma recommendationsOf_robots:
  "\<not> robotsExists (robotsInfo (analysisOf w run url response host density))
   \<Longrightarrow> ''Add a robots.txt'' \<in> set (recommendationsOf w run url response host density)"
  by (simp add: recommendationsOf_def analysisOf_def compileReport_def Let_def
        crawlRecommendations_robots split: prod.splits)

text \<open>
  The fields of \<open>splitLines\<close> are the lines of the text: none contains a line feed, and
  joined by line feeds they give the text back.
\<close>

lemma splitOn_nonempty: "splitOn sep cur s \<noteq> []"
  by (induction s arbitrary: cur) auto

lemma joinWith_Cons: "ys \<noteq> [] \<Longrightarrow> joinWith sep (x # ys) = x @ sep @ joinWith sep ys"
  by (cases ys) auto

lemma joinWith_splitOn: "joinWith [sep] (splitOn sep cur s) = rev cur @ s"
  by (induction s arbitrary: cur) (auto simp: joinWith_Cons splitOn_nonempty)

lemma splitOn_fields: "l \<in> set (splitOn sep cur s) \<Longrightarrow> sep \<notin> set cur \<Longrightarrow> sep \<notin> set l"
proof (induction s arbitrary: cur)
  case Nil
  then show ?case by auto
next
  case (Cons c s)
  show ?case
  proof (cases "c = sep")
    case True
    with Cons.prems have "l = rev cur \<or> l \<in> set (splitOn sep [] s)" by simp
    then show ?thesis using Cons.IH [of "[]"] Cons.prems(2) by auto
  next
    case False
    with Cons.prems have "l \<in> set (splitOn sep (c # cur) s)" by simp
    then show ?thesis using Cons.IH [of "c # cur"] Cons.prems(2) False by auto
  qed
qed

lemma splitLines_lines:
  "joinWith [CHR 0x0A] (splitLines s) = s"
  "l \<in> set (splitLines s) \<Longrightarrow> CHR 0x0A \<notin> set l"
  using splitOn_fields [of l "CHR 0x0A" "[]" s]
  by (simp_all add: splitLines_def joinWith_splitOn)

lemma startsWithCI_prefix: "startsWithCI s p = prefix (toLowerCase p) (toLowerCase s)"
  by (induction s p rule: startsWithCI.induct) (simp_all add: toLowerCase_def)

lemma lowercase_starts_with_disallow:
  "startsWith (toLowerCase l) ''disallow'' = startsWithCI l ''disallow''"
  by (simp add: startsWithCI_prefix startsWith_def) (simp add: toLowerCase_def toLowerChar_def)

text \<open>
  What the probe does, case by case. A request that fails or is answered with a status
  of 400 or more gives a \<open>robotsInfo\<close> that does not exist and the recommendation
  \<^verbatim>\<open>Add a robots.txt\<close>. A request answered with a status below 400 and a string gives a
  \<open>robotsInfo\<close> that exists, with the lines of the string that start with \<^verbatim>\<open>disallow\<close> in
  either case, in their order. A request answered with a status below 400 and data that
  is not a string gives a \<open>robotsInfo\<close> that does not exist.
\<close>

lemma robots_probe_refused:
  assumes "resolveURL w ''/robots.txt'' url = Some robotsUrl"
    and "request w GET robotsUrl = Failed code message
         \<or> (\<exists>res. request w GET robotsUrl = Replied res \<and> 400 \<le> status res)"
  shows "\<not> robotsExists (robotsInfo (analysisOf w run url response host density))"
    and "''Add a robots.txt'' \<in> set (recommendationsOf w run url response host density)"
proof -
  show absent: "\<not> robotsExists (robotsInfo (analysisOf w run url response host density))"
    using assms by (auto simp: analysisOf_robots fetchRobotsTxt_def robotsExists_def)
  then show "''Add a robots.txt'' \<in> set (recommendationsOf w run url response host density)"
    by (rule recommendationsOf_robots)
qed

lemma robots_probe_text:
  assumes "resolveURL w ''/robots.txt'' url = Some robotsUrl"
    and "request w GET robotsUrl = Replied res" "status res < 400"
    and "data res = JString text"
  shows "robotsInfo (analysisOf w run url response host density) =
           RobotsFound (filter (\<lambda>l. startsWithCI l ''disallow'') (splitLines text))
             (status res)"
    and "robotsExists (robotsInfo (analysisOf w run url response host density))"
  using assms
  by (simp_all add: analysisOf_robots fetchRobotsTxt_def lowercase_starts_with_disallow
        robotsExists_def)

lemma robots_probe_parsed_body:
  assumes "resolveURL w ''/robots.txt'' url = Some robotsUrl"
    and "request w GET robotsUrl = Replied res" "status res < 400"
    and "stringOf (data res) = None"
  shows "robotsInfo (analysisOf w run url response host density) = RobotsError NotAString"
    and "\<not> robotsExists (robotsInfo (analysisOf w run url response host density))"
    and "''Add a robots.txt'' \<in> set (recommendationsOf w run url response host density)"
proof -
  show info: "robotsInfo (analysisOf w run url response host density) = RobotsError NotAString"
    using assms by (simp add: analysisOf_robots fetchRobotsTxt_def)
  then show absent: "\<not> robotsExists (robotsInfo (analysisOf w run url response host density))"
    by (simp add: robotsExists_def)
  then show "''Add a robots.txt'' \<in> set (recommendationsOf w run url response host density)"
    by (rule recommendationsOf_robots)
qed

text \<open>
  The sitemap probe keeps the parser in a \<^verbatim>\<open>try\<close> of its own: whatever the data of a
  response with a status below 400, the sitemap exists.
\<close>

lemma sitemap_probe_any_body:
  assumes "resolveURL w ''/sitemap.xml'' url = Some sitemapUrl"
    and "request w GET sitemapUrl = Replied res" "status res < 400"
  shows "sitemapExists (sitemapInfo (analysisOf w run url response host density))"
  using assms by (simp add: analysisOf_sitemap fetchXmlSitemap_def sitemapExists_def)

text \<open>
  Claim C7 says that \<open>robotsInfo\<close> exists after every request that is answered with a
  status below 400. In the world where the site answers the requests for
  \<^verbatim>\<open>robots.txt\<close> and \<^verbatim>\<open>sitemap.xml\<close> with status 200 and the JSON body \<^verbatim>\<open>{}\<close>, axios
  hands the handler an object, \<^verbatim>\<open>res.data.split\<close> throws, and the report says that
  \<^verbatim>\<open>robots.txt\<close> does not exist and recommends to add one, while the sitemap, fetched
  with the same answer, exists.
\<close>

theorem robots_with_json_body_reported_missing:
  "request jsonWorld GET ''http://example.com/robots.txt''
     = Replied \<lparr> status = 200, statusText = ''OK'', headers = [], data = JObject [] \<rparr>
   \<and> robotsInfo (analysisOf jsonWorld aMoment ''http://example.com/'' examplePage
        ''example.com'' 0) = RobotsError NotAString
   \<and> \<not> robotsExists (robotsInfo (analysisOf jsonWorld aMoment ''http://example.com/''
        examplePage ''example.com'' 0))
   \<and> ''Add a robots.txt'' \<in> set (recommendationsOf jsonWorld aMoment
        ''http://example.com/'' examplePage ''example.com'' 0)
   \<and> sitemapExists (sitemapInfo (analysisOf jsonWorld aMoment ''http://example.com/''
        examplePage ''example.com'' 0))"
proof -
  let ?res = "\<lparr> status = 200, statusText = ''OK'', headers = [], data = JObject [] \<rparr>"
  have robotsUrl: "resolveURL jsonWorld ''/robots.txt'' ''http://example.com/''
      = Some ''http://example.com/robots.txt''"
    and sitemapUrl: "resolveURL jsonWorld ''/sitemap.xml'' ''http://example.com/''
      = Some ''http://example.com/sitemap.xml''"
    by (simp_all add: jsonWorld_def exampleWorld_def startsWith_def)
  have robots: "request jsonWorld GET ''http://example.com/robots.txt'' = Replied ?res"
    and sitemap: "request jsonWorld GET ''http://example.com/sitemap.xml'' = Replied ?res"
    by (simp_all add: jsonWorld_def)
  have res: "status ?res < 400" "stringOf (data ?res) = None"
    by simp_all
  show ?thesis
    using robots_probe_parsed_body [OF robotsUrl robots res]
      sitemap_probe_any_body [OF sitemapUrl sitemap res(1)] robots
    by simp
qed

text \<open>
  The other two cases in the example worlds: a \<^verbatim>\<open>robots.txt\<close> served as text with one
  disallow rule among its three lines, and a request answered with 404.
\<close>

lemma robots_probe_examples:
  "robotsInfo (analysisOf exampleWorld aMoment ''http://example.com/'' examplePage
     ''example.com'' 0) = RobotsFound [''Disallow: /private''] 200"
  "\<not> robotsExists (robotsInfo (analysisOf noRobotsWorld aMoment ''http://example.com/''
     examplePage ''example.com'' 0))"
  "''Add a robots.txt'' \<in> set (recommendationsOf noRobotsWorld aMoment
     ''http://example.com/'' examplePage ''example.com'' 0)"
proof -
  let ?robots =
    "\<lparr> status = 200, statusText = ''OK'', headers = [],
       data = JString ''User-agent: *\<newline>Disallow: /private\<newline>Allow: /'' \<rparr>"
  let ?missing =
    "\<lparr> status = 404, statusText = ''Not Found'', headers = [], data = JString [] \<rparr>"
  have resolve: "resolveURL exampleWorld ''/robots.txt'' ''http://example.com/''
      = Some ''http://example.com/robots.txt''"
    by (simp add: exampleWorld_def startsWith_def)
  have resolve': "resolveURL noRobotsWorld ''/robots.txt'' ''http://example.com/''
      = Some ''http://example.com/robots.txt''"
    by (simp add: noRobotsWorld_def exampleWorld_def startsWith_def)
  have served: "request exampleWorld GET ''http://example.com/robots.txt'' = Replied ?robots"
    by (simp add: exampleWorld_def)
  have refused: "request noRobotsWorld GET ''http://example.com/robots.txt'' = Replied ?missing"
    by (simp add: noRobotsWorld_def)
  have rules: "filter (\<lambda>l. startsWithCI l ''disallow'')
      (splitLines ''User-agent: *\<newline>Disallow: /private\<newline>Allow: /'')
      = [''Disallow: /private'']"
    by (simp add: splitLines_def toLowerChar_def)
  show "robotsInfo (analysisOf exampleWorld aMoment ''http://example.com/'' examplePage
     ''example.com'' 0) = RobotsFound [''Disallow: /private''] 200"
    using robots_probe_text(1) [OF resolve served, of _ aMoment examplePage "''example.com''" 0]
      rules
    by simp
  have "\<exists>res. request noRobotsWorld GET ''http://example.com/robots.txt'' = Replied res
      \<and> 400 \<le> status res"
    using refused by simp
  then have no: "request noRobotsWorld GET ''http://example.com/robots.txt'' = Failed [] []
      \<or> (\<exists>res. request noRobotsWorld GET ''http://example.com/robots.txt'' = Replied res
           \<and> 400 \<le> status res)"
    by simp
  show "\<not> robotsExists (robotsInfo (analysisOf noRobotsWorld aMoment ''http://example.com/''
     examplePage ''example.com'' 0))"
    using robots_probe_refused(1) [OF resolve' no] .
  show "''Add a robots.txt'' \<in> set (recommendationsOf noRobotsWorld aMoment
     ''http://example.com/'' examplePage ''example.com'' 0)"
    using robots_probe_refused(2) [OF resolve' no] .
qed

subsection \<open>Two runs\<close>

lemma compileReport_moment:
  "compileReport w run2 url response host density =
     (case compileReport w run1 url response host density of
        ((a, recs), calls) \<Rightarrow> ((a\<lparr> timestamp := isoTime run2 \<rparr>, recs), calls))"
  by (simp add: compileReport_def Let_def split: prod.splits)

lemma analysisOf_timestamp:
  "timestamp (analysisOf w run url response host density) = isoTime run"
  by (simp add: analysisOf_def compileReport_def Let_def split: prod.splits)

text \<open>
  Claim C8. Two runs of the handler in the same world on the same request differ in
  what they read from the clock and the random number generator only. The second run
  issues the same calls and sends the response of the first, with the same status and
  the same extractor, probe, score and recommendation fields; only the time stamp of
  the report is its own.
\<close>

theorem two_runs_differ_in_timestamp_only:
  "handler w run2 reqBody =
     (withTimestamp (isoTime run2) (fst (handler w run1 reqBody)),
      snd (handler w run1 reqBody))"
  by (auto simp: handler_def analyse_def withTimestamp_def errorResponse_def
        compileReport_moment [of w run2 _ _ _ _ run1]
      split: option.splits sum.splits prod.splits thrown.splits if_splits)

end
